theory Spec2Isabelle
  imports Main
begin

section \<open>Data model\<close>

text \<open>
  The source is a single file, \<^verbatim>\<open>src/index.ts\<close>: an Express handler for
  \<^verbatim>\<open>POST /identify\<close> over one PostgreSQL table \<^verbatim>\<open>Contact\<close>.

  \<^item> A row of the table is the record \<open>Contact\<close>, with the columns of
    \<^verbatim>\<open>CREATE TABLE Contact\<close> (lines 52-61) under the names the source writes. A column
    that is \<^verbatim>\<open>NULL\<close> is \<open>None\<close>. The column \<^verbatim>\<open>id\<close> is called \<open>id_c\<close>, because \<open>id\<close> is
    the identity function of HOL.
  \<^item> What \<^verbatim>\<open>pool.query\<close> hands to the handler is not such a record but a JavaScript
    object per row (\<open>jsobject\<close>, see \<open>rowObject\<close>). The statements write the column names
    without quotes, so PostgreSQL folds them to lower case, and the keys of a row object
    are \<^verbatim>\<open>id\<close>, \<^verbatim>\<open>phonenumber\<close>, \<^verbatim>\<open>email\<close>, \<^verbatim>\<open>linkedid\<close>, \<^verbatim>\<open>linkprecedence\<close>,
    \<^verbatim>\<open>createdat\<close>, \<^verbatim>\<open>updatedat\<close>, \<^verbatim>\<open>deletedat\<close>.
  \<^item> \<^verbatim>\<open>interface IdentifyRequest\<close> is the record \<open>IdentifyRequest\<close>; a field that is
    absent from the body (\<^verbatim>\<open>undefined\<close>) is \<open>None\<close>.
  \<^item> Timestamps of the table are natural numbers, in microseconds.
\<close>

datatype LinkPrecedence = Primary | Secondary

record Contact =
  id_c :: nat
  phoneNumber :: "string option"
  email :: "string option"
  linkedId :: "nat option"
  linkPrecedence :: LinkPrecedence
  createdAt :: nat
  updatedAt :: nat
  deletedAt :: "nat option"

record IdentifyRequest =
  req_email :: "string option"
  req_phoneNumber :: "string option"

text \<open>
  The database: the rows of table \<^verbatim>\<open>Contact\<close> in table order, the sequence behind
  \<^verbatim>\<open>id SERIAL\<close>, and the clock read by \<^verbatim>\<open>CURRENT_TIMESTAMP\<close>. \<open>failAfter\<close> is the
  environment's part: \<open>Some k\<close> says that the connection serves \<open>k\<close> more statements and
  then rejects every \<^verbatim>\<open>pool.query\<close>; \<open>None\<close> says that it never does.
\<close>

record Store =
  rows :: "Contact list"
  nextId :: nat
  clock :: nat
  failAfter :: "nat option"

text \<open>
  What the handler can throw: a rejected \<^verbatim>\<open>pool.query\<close> (connection failure or a violated
  constraint of the table), and \<^verbatim>\<open>new Error('No primary contact found')\<close>.
\<close>

datatype error = StoreFailure | NoPrimaryContactFound

text \<open>
  An \<^verbatim>\<open>async\<close> function that uses the pool takes the store and gives back either the
  thrown error or its value, together with the store as it is at that moment.
\<close>

type_synonym 'a io = "Store \<Rightarrow> (error + 'a) \<times> Store"

definition bindE :: "'a io \<Rightarrow> ('a \<Rightarrow> 'b io) \<Rightarrow> 'b io" where
  "bindE m k db = (case m db of (Inl e, db1) \<Rightarrow> (Inl e, db1) | (Inr x, db1) \<Rightarrow> k x db1)"

definition returnE :: "'a \<Rightarrow> 'a io" where
  "returnE x db = (Inr x, db)"

section \<open>JavaScript values\<close>

text \<open>
  The values that occur in a row object or in the answer: \<^verbatim>\<open>null\<close>, a string, a number,
  and a \<^verbatim>\<open>Date\<close> (in milliseconds). \<^verbatim>\<open>undefined\<close> is \<open>None\<close> of \<open>jsval option\<close>. An
  object is the list of its keys with their values, and reading a property that the object
  does not have gives \<^verbatim>\<open>undefined\<close>.
\<close>

datatype jsval = Null | Str string | Num nat | DateMs nat

type_synonym jsobject = "(string \<times> jsval) list"

definition getProp :: "jsobject \<Rightarrow> string \<Rightarrow> jsval option" where
  "getProp obj key = map_of obj key"

text \<open>
  The object that \<^verbatim>\<open>result.rows\<close> holds for a row of the table: the keys are the column
  names in lower case, and a timestamp has become a \<^verbatim>\<open>Date\<close>, which keeps milliseconds.
\<close>

definition strOrNull :: "string option \<Rightarrow> jsval" where
  "strOrNull v = (case v of None \<Rightarrow> Null | Some s \<Rightarrow> Str s)"

definition rowObject :: "Contact \<Rightarrow> jsobject" where
  "rowObject c =
     [(''id'', Num (id_c c)),
      (''phonenumber'', strOrNull (phoneNumber c)),
      (''email'', strOrNull (email c)),
      (''linkedid'', (case linkedId c of None \<Rightarrow> Null | Some l \<Rightarrow> Num l)),
      (''linkprecedence'', (case linkPrecedence c of Primary \<Rightarrow> Str ''primary'' | Secondary \<Rightarrow> Str ''secondary'')),
      (''createdat'', DateMs (createdAt c div 1000)),
      (''updatedat'', DateMs (updatedAt c div 1000)),
      (''deletedat'', (case deletedAt c of None \<Rightarrow> Null | Some d \<Rightarrow> DateMs (d div 1000)))]"

text \<open>
  A field of the request as a JavaScript value, and its truthiness: only a non-empty
  string is truthy (\<^verbatim>\<open>if (email)\<close>, \<^verbatim>\<open>!email\<close>).
\<close>

definition reqVal :: "string option \<Rightarrow> jsval option" where
  "reqVal v = map_option Str v"

definition truthy :: "string option \<Rightarrow> bool" where
  "truthy v = (case v of None \<Rightarrow> False | Some s \<Rightarrow> s \<noteq> [])"

text \<open>
  \<^verbatim>\<open>Boolean(v)\<close>, as in \<^verbatim>\<open>.filter(Boolean)\<close>: \<^verbatim>\<open>undefined\<close>, \<^verbatim>\<open>null\<close>, the empty
  string and zero are falsy.
\<close>

definition truthyJs :: "jsval option \<Rightarrow> bool" where
  "truthyJs v =
     (case v of
        None \<Rightarrow> False
      | Some Null \<Rightarrow> False
      | Some (Str s) \<Rightarrow> s \<noteq> []
      | Some (Num n) \<Rightarrow> n \<noteq> 0
      | Some (DateMs d) \<Rightarrow> True)"

text \<open>
  \<^verbatim>\<open>a === b\<close>: \<^verbatim>\<open>undefined\<close>, \<^verbatim>\<open>null\<close>, strings and numbers are equal when they are
  the same value; a \<^verbatim>\<open>Date\<close> is an object and is not equal to a \<^verbatim>\<open>Date\<close> of another
  row object.
\<close>

definition strictEq :: "jsval option \<Rightarrow> jsval option \<Rightarrow> bool" where
  "strictEq a b = (a = b \<and> (case a of Some (DateMs d) \<Rightarrow> False | _ \<Rightarrow> True))"

text \<open>
  \<^verbatim>\<open>new Date(a) < new Date(b)\<close>. \<^verbatim>\<open>new Date(undefined)\<close> is an invalid date and every
  comparison with it is false; \<^verbatim>\<open>new Date(null)\<close> is the epoch; a \<^verbatim>\<open>Date\<close> and a number
  give their milliseconds. \<^verbatim>\<open>createdAt\<close> is never a string in this program, and a string is
  taken as an invalid date.
\<close>

definition millis :: "jsval option \<Rightarrow> nat option" where
  "millis v =
     (case v of
        None \<Rightarrow> None
      | Some Null \<Rightarrow> Some 0
      | Some (Str s) \<Rightarrow> None
      | Some (Num n) \<Rightarrow> Some n
      | Some (DateMs d) \<Rightarrow> Some d)"

definition dateLess :: "jsval option \<Rightarrow> jsval option \<Rightarrow> bool" where
  "dateLess a b =
     (case millis a of
        None \<Rightarrow> False
      | Some x \<Rightarrow> (case millis b of None \<Rightarrow> False | Some y \<Rightarrow> x < y))"

text \<open>
  \<^verbatim>\<open>Array.from(new Set(xs))\<close>: a \<^verbatim>\<open>Set\<close> keeps insertion order and ignores a value
  it already holds, so the first occurrence of each value stays.
\<close>

definition setAdd :: "'a list \<Rightarrow> 'a \<Rightarrow> 'a list" where
  "setAdd acc x = (if x \<in> set acc then acc else acc @ [x])"

definition arrayFromSet :: "'a list \<Rightarrow> 'a list" where
  "arrayFromSet xs = foldl setAdd [] xs"

text \<open>
  A JavaScript value as the parameter of an integer column: a number is sent as it is,
  \<^verbatim>\<open>undefined\<close> and \<^verbatim>\<open>null\<close> are sent as \<^verbatim>\<open>NULL\<close>. The handler passes the \<^verbatim>\<open>id\<close> of
  row objects only, which is a number; any other value is taken as \<^verbatim>\<open>NULL\<close>.
\<close>

definition sqlInt :: "jsval option \<Rightarrow> nat option" where
  "sqlInt v = (case v of Some (Num n) \<Rightarrow> Some n | _ \<Rightarrow> None)"

text \<open>
  The \<^verbatim>\<open>contact\<close> object of \<^verbatim>\<open>interface IdentifyResponse\<close>, as it is handed to
  \<^verbatim>\<open>res.json\<close>: its parts are read from row objects, so they are JavaScript values
  (\<open>None\<close> is \<^verbatim>\<open>undefined\<close>).
\<close>

record IdentifyResponse =
  primaryContatctId :: "jsval option"
  emails :: "jsval option list"
  phoneNumbers :: "jsval option list"
  secondaryContactIds :: "jsval option list"

text \<open>What the handler sends: status 400, status 200 with the response, or status 500.\<close>

datatype http = Status400 | Status200 IdentifyResponse | Status500

section \<open>The table and its statements\<close>

text \<open>The column \<^verbatim>\<open>linkPrecedence\<close> of a row of the table.\<close>

definition isPrimary :: "Contact \<Rightarrow> bool" where
  "isPrimary c = (linkPrecedence c = Primary)"

definition isSecondary :: "Contact \<Rightarrow> bool" where
  "isSecondary c = (linkPrecedence c = Secondary)"

definition ids :: "Contact list \<Rightarrow> nat list" where
  "ids rs = map id_c rs"

text \<open>
  One \<^verbatim>\<open>await pool.query(...)\<close>: it rejects when the connection has failed, and takes one
  tick of the clock otherwise.
\<close>

definition query :: "unit io" where
  "query db =
     (case failAfter db of
        None \<Rightarrow> (Inr (), db\<lparr>clock := clock db + 1\<rparr>)
      | Some 0 \<Rightarrow> (Inl StoreFailure, db)
      | Some (Suc k) \<Rightarrow> (Inr (), db\<lparr>clock := clock db + 1, failAfter := Some k\<rparr>))"

text \<open>
  \<^verbatim>\<open>getRelatedContacts\<close> (lines 66-82): the non-deleted rows whose email equals the given
  email or whose phone number equals the given phone number; a condition is only added for a
  truthy argument, and with no condition the clause is \<^verbatim>\<open>WHERE false\<close>. A \<^verbatim>\<open>NULL\<close>
  column is equal to nothing. The rows come in table order, as row objects.
\<close>

definition matches :: "string option \<Rightarrow> string option \<Rightarrow> Contact \<Rightarrow> bool" where
  "matches em ph c =
     (deletedAt c = None \<and>
      ((truthy em \<and> email c = em) \<or> (truthy ph \<and> phoneNumber c = ph)))"

definition getRelatedContacts :: "string option \<Rightarrow> string option \<Rightarrow> jsobject list io" where
  "getRelatedContacts em ph =
     bindE query (\<lambda>_ db. (Inr (map rowObject (filter (matches em ph) (rows db))), db))"

text \<open>
  The recursive query of \<^verbatim>\<open>getContactChain\<close> (lines 86-95). \<open>tbl\<close> is the table, \<open>work\<close>
  the rows found by the last round and \<open>acc\<close> all rows found so far. A round joins the table
  with the working rows on \<^verbatim>\<open>c.linkedId = ct.id\<close>; \<^verbatim>\<open>UNION ALL\<close> keeps duplicates, so the
  query ends only when a round finds nothing, and never when the links form a cycle.
\<close>

definition children :: "Contact list \<Rightarrow> Contact list \<Rightarrow> Contact list" where
  "children tbl work =
     concat (map (\<lambda>ct. filter (\<lambda>c. linkedId c = Some (id_c ct) \<and> deletedAt c = None) tbl) work)"

partial_function (option) contact_tree :: "Contact list \<Rightarrow> Contact list \<Rightarrow> Contact list \<Rightarrow> Contact list option" where
  "contact_tree tbl work acc =
     (if work = [] then Some acc
      else contact_tree tbl (children tbl work) (acc @ children tbl work))"

declare contact_tree.simps [code]

text \<open>
  \<^verbatim>\<open>getContactChain\<close>: the tree below the row whose id is \<^verbatim>\<open>contact.id\<close>,
  \<^verbatim>\<open>ORDER BY createdAt ASC\<close> (rows with the same \<^verbatim>\<open>createdAt\<close> stay in the order the
  query found them), as row objects. With \<^verbatim>\<open>NULL\<close> for the id no row is found. \<open>None\<close>
  says that the query does not end.
\<close>

definition getContactChain :: "jsobject \<Rightarrow> Store \<Rightarrow> ((error + jsobject list) \<times> Store) option" where
  "getContactChain contact db =
     (case query db of
        (Inl e, db1) \<Rightarrow> Some (Inl e, db1)
      | (Inr _, db1) \<Rightarrow>
          (let base = filter (\<lambda>c. Some (id_c c) = sqlInt (getProp contact ''id'') \<and> deletedAt c = None) (rows db1)
           in case contact_tree (rows db1) base base of
                None \<Rightarrow> None
              | Some tree \<Rightarrow> Some (Inr (map rowObject (sort_key createdAt tree)), db1)))"

text \<open>
  A string stored into \<^verbatim>\<open>VARCHAR(n)\<close>: one that is too long is an error, unless all that
  is beyond the length is spaces, which are cut off. \<open>None\<close> is the error.
\<close>

definition fitVarchar :: "nat \<Rightarrow> string option \<Rightarrow> string option option" where
  "fitVarchar n v =
     (case v of
        None \<Rightarrow> Some None
      | Some s \<Rightarrow>
          (if length s \<le> n then Some (Some s)
           else if list_all (\<lambda>ch. ch = CHR '' '') (drop n s) then Some (Some (take n s))
           else None))"

text \<open>
  \<^verbatim>\<open>createContact\<close> (lines 99-106): one \<^verbatim>\<open>INSERT ... RETURNING *\<close>. An \<^verbatim>\<open>undefined\<close>
  parameter is stored as \<^verbatim>\<open>NULL\<close>. A value that does not fit \<^verbatim>\<open>VARCHAR(15)\<close> or
  \<^verbatim>\<open>VARCHAR(255)\<close> stops the statement before the sequence is asked for an id; a clash
  of the primary key, or a \<^verbatim>\<open>linkedId\<close> that is no id of the table, stops it after. What
  is returned is the row object of the new row.
\<close>

definition createContact :: "string option \<Rightarrow> string option \<Rightarrow> nat option \<Rightarrow> LinkPrecedence \<Rightarrow> jsobject io" where
  "createContact em ph lid lp =
     bindE query (\<lambda>_ db.
       case fitVarchar 15 ph of
         None \<Rightarrow> (Inl StoreFailure, db)
       | Some ph1 \<Rightarrow>
           (case fitVarchar 255 em of
              None \<Rightarrow> (Inl StoreFailure, db)
            | Some em1 \<Rightarrow>
                (let r = \<lparr>id_c = nextId db, phoneNumber = ph1, email = em1, linkedId = lid,
                          linkPrecedence = lp, createdAt = clock db, updatedAt = clock db,
                          deletedAt = None\<rparr>
                 in if id_c r \<in> set (ids (rows db)) \<or>
                       (case lid of None \<Rightarrow> False | Some l \<Rightarrow> l \<notin> set (ids (rows db @ [r])))
                    then (Inl StoreFailure, db\<lparr>nextId := nextId db + 1\<rparr>)
                    else (Inr (rowObject r), db\<lparr>rows := rows db @ [r], nextId := nextId db + 1\<rparr>))))"

text \<open>
  \<^verbatim>\<open>updateContactToSecondary\<close> (lines 108-113): one \<^verbatim>\<open>UPDATE ... WHERE id = $2\<close>. The
  foreign key is checked for a row that is updated.
\<close>

definition demote :: "nat \<Rightarrow> nat \<Rightarrow> Contact \<Rightarrow> Contact" where
  "demote lid now c = c\<lparr>linkedId := Some lid, linkPrecedence := Secondary, updatedAt := now\<rparr>"

definition updateContactToSecondary :: "nat \<Rightarrow> nat \<Rightarrow> unit io" where
  "updateContactToSecondary contactId lid =
     bindE query (\<lambda>_ db.
       if contactId \<in> set (ids (rows db)) \<and> lid \<notin> set (ids (rows db))
       then (Inl StoreFailure, db)
       else (Inr (), db\<lparr>rows := map (\<lambda>c. if id_c c = contactId then demote lid (clock db) c else c) (rows db)\<rparr>))"

text \<open>
  The same statement with the parameters as the handler passes them, \<^verbatim>\<open>p.id\<close> and
  \<^verbatim>\<open>oldest.id\<close>. With \<^verbatim>\<open>NULL\<close> for the id no row is updated; with \<^verbatim>\<open>NULL\<close> for
  \<^verbatim>\<open>linkedId\<close> there is no foreign key to check.
\<close>

definition updateWith :: "nat option \<Rightarrow> nat option \<Rightarrow> unit io" where
  "updateWith contactId lid =
     (case contactId of
        None \<Rightarrow> query
      | Some c \<Rightarrow>
          (case lid of
             Some l \<Rightarrow> updateContactToSecondary c l
           | None \<Rightarrow>
               bindE query (\<lambda>_ db.
                 (Inr (), db\<lparr>rows := map (\<lambda>r. if id_c r = c
                                                then r\<lparr>linkedId := None, linkPrecedence := Secondary,
                                                       updatedAt := clock db\<rparr>
                                                else r) (rows db)\<rparr>))))"

section \<open>The view\<close>

text \<open>
  \<^verbatim>\<open>c.linkPrecedence === 'primary'\<close> and \<^verbatim>\<open>c.linkPrecedence === 'secondary'\<close>, read from
  an object.
\<close>

definition jsPrimary :: "jsobject \<Rightarrow> bool" where
  "jsPrimary c = strictEq (getProp c ''linkPrecedence'') (Some (Str ''primary''))"

definition jsSecondary :: "jsobject \<Rightarrow> bool" where
  "jsSecondary c = strictEq (getProp c ''linkPrecedence'') (Some (Str ''secondary''))"

text \<open>
  \<^verbatim>\<open>buildResponse\<close> (lines 115-132). The primary's own email and phone number go into the
  sets as they are; \<^verbatim>\<open>.filter(Boolean)\<close> is applied to the values of the secondaries only.
\<close>

definition buildResponse :: "jsobject list \<Rightarrow> error + IdentifyResponse" where
  "buildResponse contacts =
     (case find jsPrimary contacts of
        None \<Rightarrow> Inl NoPrimaryContactFound
      | Some primary \<Rightarrow>
          (let secondary = filter jsSecondary contacts
           in Inr \<lparr>primaryContatctId = getProp primary ''id'',
                   emails = arrayFromSet (getProp primary ''email'' #
                              filter truthyJs (map (\<lambda>c. getProp c ''email'') secondary)),
                   phoneNumbers = arrayFromSet (getProp primary ''phoneNumber'' #
                              filter truthyJs (map (\<lambda>c. getProp c ''phoneNumber'') secondary)),
                   secondaryContactIds = map (\<lambda>c. getProp c ''id'') secondary\<rparr>))"

section \<open>The handler\<close>

text \<open>
  Lines 149-158: the new secondary. It is inserted when no contact of the chain has exactly
  this email and phone number, and the request brings an email or a phone number that no
  contact of the chain has; it is pushed onto the chain in memory.
\<close>

definition attachSecondary :: "jsobject \<Rightarrow> jsobject list \<Rightarrow> IdentifyRequest \<Rightarrow> jsobject list io" where
  "attachSecondary primary fullChain req =
     (let em = req_email req; ph = req_phoneNumber req;
          alreadyExists = list_ex (\<lambda>c. strictEq (getProp c ''email'') (reqVal em) \<and>
                                        strictEq (getProp c ''phoneNumber'') (reqVal ph)) fullChain;
          existsEmail = list_ex (\<lambda>c. strictEq (getProp c ''email'') (reqVal em)) fullChain;
          existsPhone = list_ex (\<lambda>c. strictEq (getProp c ''phoneNumber'') (reqVal ph)) fullChain
      in if \<not> alreadyExists \<and> ((truthy em \<and> \<not> existsEmail) \<or> (truthy ph \<and> \<not> existsPhone))
         then bindE (createContact em ph (sqlInt (getProp primary ''id'')) Secondary)
                (\<lambda>secondary. returnE (fullChain @ [secondary]))
         else returnE fullChain)"

text \<open>
  Line 162: \<^verbatim>\<open>primaries.reduce((a, b) => new Date(a.createdAt) < new Date(b.createdAt) ? a : b)\<close>,
  called on a list of more than one element. When the comparison is false the later element
  wins.
\<close>

definition oldestOf :: "jsobject list \<Rightarrow> jsobject" where
  "oldestOf primaries =
     foldl (\<lambda>a b. if dateLess (getProp a ''createdAt'') (getProp b ''createdAt'') then a else b)
       (hd primaries) (tl primaries)"

text \<open>Lines 163-165: the loop over the primaries, one \<^verbatim>\<open>UPDATE\<close> for each but the oldest.\<close>

fun demoteLoop :: "jsobject list \<Rightarrow> jsobject \<Rightarrow> unit io" where
  "demoteLoop [] oldest db = (Inr (), db)"
| "demoteLoop (p # ps) oldest db =
     (if \<not> strictEq (getProp p ''id'') (getProp oldest ''id'')
      then (case updateWith (sqlInt (getProp p ''id'')) (sqlInt (getProp oldest ''id'')) db of
              (Inl e, db1) \<Rightarrow> (Inl e, db1)
            | (Inr _, db1) \<Rightarrow> demoteLoop ps oldest db1)
      else demoteLoop ps oldest db)"

text \<open>Lines 160-166: the merge of the primaries of the chain in memory.\<close>

definition mergePrimaries :: "jsobject list \<Rightarrow> unit io" where
  "mergePrimaries fullChain =
     (let primaries = filter jsPrimary fullChain
      in if 1 < length primaries then demoteLoop primaries (oldestOf primaries)
         else returnE ())"

text \<open>
  Lines 143-168, from the chain on. Without a primary in the chain a new primary is inserted
  and \<^verbatim>\<open>buildResponse\<close> is called on it alone; otherwise the secondary is attached, the
  primaries are merged, and the response is built from the chain in memory (which is not
  read again after the updates).
\<close>

definition consolidate :: "jsobject list \<Rightarrow> IdentifyRequest \<Rightarrow> IdentifyResponse io" where
  "consolidate fullChain req =
     (case find jsPrimary fullChain of
        None \<Rightarrow>
          bindE (createContact (req_email req) (req_phoneNumber req) None Primary)
            (\<lambda>primary db. (buildResponse [primary], db))
      | Some primary \<Rightarrow>
          bindE (attachSecondary primary fullChain req)
            (\<lambda>chain. bindE (mergePrimaries chain) (\<lambda>_ db. (buildResponse chain, db))))"

text \<open>
  Lines 141-168, from the matched contacts on: the chain of the first of them only
  (\<^verbatim>\<open>related[0]\<close>), or the empty chain when nothing matched.
\<close>

definition identifyOn :: "jsobject list \<Rightarrow> IdentifyRequest \<Rightarrow> Store \<Rightarrow> ((error + IdentifyResponse) \<times> Store) option" where
  "identifyOn related req db =
     (case related of
        [] \<Rightarrow> Some (consolidate [] req db)
      | r # _ \<Rightarrow>
          (case getContactChain r db of
             None \<Rightarrow> None
           | Some (Inl e, db1) \<Rightarrow> Some (Inl e, db1)
           | Some (Inr fullChain, db1) \<Rightarrow> Some (consolidate fullChain req db1)))"

text \<open>
  Lines 140-168, the body of the \<^verbatim>\<open>try\<close> for a request that has an email or a phone
  number: what it returns or throws.
\<close>

definition attempt :: "IdentifyRequest \<Rightarrow> Store \<Rightarrow> ((error + IdentifyResponse) \<times> Store) option" where
  "attempt req db =
     (case getRelatedContacts (req_email req) (req_phoneNumber req) db of
        (Inl e, db1) \<Rightarrow> Some (Inl e, db1)
      | (Inr related, db1) \<Rightarrow> identifyOn related req db1)"

text \<open>Lines 168-172: the answer. The \<^verbatim>\<open>catch\<close> sends status 500 for whatever was thrown.\<close>

definition respond :: "(error + IdentifyResponse) \<times> Store \<Rightarrow> http \<times> Store" where
  "respond out = (case out of (Inl e, db) \<Rightarrow> (Status500, db) | (Inr r, db) \<Rightarrow> (Status200 r, db))"

text \<open>
  The handler of \<^verbatim>\<open>POST /identify\<close> (lines 135-173). \<open>None\<close> says that it never answers.
\<close>

definition identify :: "IdentifyRequest \<Rightarrow> Store \<Rightarrow> (http \<times> Store) option" where
  "identify req db =
     (if \<not> truthy (req_email req) \<and> \<not> truthy (req_phoneNumber req) then Some (Status400, db)
      else map_option respond (attempt req db))"

section \<open>Sequences of observations\<close>

text \<open>
  The store before the first request: an empty table, the sequence at 1. A step of the
  environment lets some time pass, fixes how many statements the connection will serve
  (\<open>None\<close>: all), and sends one request.
\<close>

definition emptyStore :: Store where
  "emptyStore = \<lparr>rows = [], nextId = 1, clock = 0, failAfter = None\<rparr>"

fun run :: "(nat \<times> nat option \<times> IdentifyRequest) list \<Rightarrow> Store \<Rightarrow> Store option" where
  "run [] db = Some db"
| "run ((dt, f, req) # steps) db =
     (case identify req (db\<lparr>clock := clock db + dt, failAfter := f\<rparr>) of
        None \<Rightarrow> None
      | Some (_, db1) \<Rightarrow> run steps db1)"

section \<open>Properties of a store\<close>

text \<open>
  No orphan secondary: the \<open>linkedId\<close> of every non-deleted secondary is the id of a row that
  is a primary.
\<close>

definition noOrphanSecondary :: "Contact list \<Rightarrow> bool" where
  "noOrphanSecondary rs =
     list_all (\<lambda>c. deletedAt c = None \<and> isSecondary c \<longrightarrow>
                 (case linkedId c of
                    None \<Rightarrow> False
                  | Some l \<Rightarrow> list_ex (\<lambda>p. id_c p = l \<and> isPrimary p) rs)) rs"

text \<open>A table without links: no row has a \<open>linkedId\<close>.\<close>

definition unlinked :: "Store \<Rightarrow> bool" where
  "unlinked db = list_all (\<lambda>c. linkedId c = None) (rows db)"

text \<open>
  Clusters, as the specification defines them: two contacts are linked when they have the
  same email or the same phone number, and the cluster of a contact is what is reachable
  from it over such links among the non-deleted rows. \<open>length rs\<close> rounds reach all of it.
\<close>

definition sharesAttribute :: "Contact \<Rightarrow> Contact \<Rightarrow> bool" where
  "sharesAttribute c d =
     ((case email c of None \<Rightarrow> False | Some e \<Rightarrow> email d = Some e) \<or>
      (case phoneNumber c of None \<Rightarrow> False | Some n \<Rightarrow> phoneNumber d = Some n))"

definition grow :: "Contact list \<Rightarrow> Contact list \<Rightarrow> Contact list" where
  "grow rs cl = filter (\<lambda>d. deletedAt d = None \<and> (d \<in> set cl \<or> list_ex (sharesAttribute d) cl)) rs"

definition clusterOf :: "Contact list \<Rightarrow> Contact \<Rightarrow> Contact list" where
  "clusterOf rs c = (grow rs ^^ length rs) [c]"

text \<open>
  What one row keeps through a demotion: everything but \<open>linkedId\<close>, \<open>linkPrecedence\<close> and
  \<open>updatedAt\<close>.
\<close>

definition sameIdentity :: "Contact \<Rightarrow> Contact \<Rightarrow> bool" where
  "sameIdentity c d =
     (id_c d = id_c c \<and> email d = email c \<and> phoneNumber d = phoneNumber c \<and>
      createdAt d = createdAt c \<and> deletedAt d = deletedAt c)"

section \<open>Example stores and runs\<close>

text \<open>A step of a run with no pause and no failure of the connection.\<close>

definition observe :: "string option \<Rightarrow> string option \<Rightarrow> nat \<times> nat option \<times> IdentifyRequest" where
  "observe em ph = (0, None, \<lparr>req_email = em, req_phoneNumber = ph\<rparr>)"

definition links :: "Store \<Rightarrow> (nat \<times> LinkPrecedence \<times> nat option) list" where
  "links db = map (\<lambda>c. (id_c c, linkPrecedence c, linkedId c)) (rows db)"

text \<open>The answer to a request, and the links of the table after it, after a run from the empty store.\<close>

definition after :: "(nat \<times> nat option \<times> IdentifyRequest) list \<Rightarrow> IdentifyRequest \<Rightarrow> (http \<times> (nat \<times> LinkPrecedence \<times> nat option) list) option" where
  "after steps req =
     (case run steps emptyStore of
        None \<Rightarrow> None
      | Some db \<Rightarrow> (case identify req db of None \<Rightarrow> None | Some (r, db1) \<Rightarrow> Some (r, links db1)))"

text \<open>
  A table with a primary and a secondary of it, as the specification's scenario 2 describes
  it. It is given as it stands: the handler itself writes no secondary.
\<close>

definition contact1 :: Contact where
  "contact1 = \<lparr>id_c = 1, phoneNumber = None, email = Some ''a@x.com'', linkedId = None,
                linkPrecedence = Primary, createdAt = 2, updatedAt = 2, deletedAt = None\<rparr>"

definition contact2 :: Contact where
  "contact2 = \<lparr>id_c = 2, phoneNumber = Some ''555'', email = Some ''a@x.com'', linkedId = Some 1,
                linkPrecedence = Secondary, createdAt = 5, updatedAt = 5, deletedAt = None\<rparr>"

definition store12 :: Store where
  "store12 = \<lparr>rows = [contact1, contact2], nextId = 3, clock = 5, failAfter = None\<rparr>"

text \<open>
  A table that the schema allows and the handler never builds: two primaries, the second
  with a \<open>linkedId\<close> to the first, so that the chain of the first holds both, and a
  secondary of the second.
\<close>

definition elder :: Contact where
  "elder = \<lparr>id_c = 1, phoneNumber = None, email = Some ''a@x.com'', linkedId = None,
             linkPrecedence = Primary, createdAt = 1, updatedAt = 1, deletedAt = None\<rparr>"

definition younger :: Contact where
  "younger = \<lparr>id_c = 2, phoneNumber = None, email = Some ''b@x.com'', linkedId = Some 1,
               linkPrecedence = Primary, createdAt = 2, updatedAt = 2, deletedAt = None\<rparr>"

definition follower :: Contact where
  "follower = \<lparr>id_c = 3, phoneNumber = Some ''555'', email = Some ''b@x.com'', linkedId = Some 2,
                linkPrecedence = Secondary, createdAt = 3, updatedAt = 3, deletedAt = None\<rparr>"

definition forked :: "nat option \<Rightarrow> Store" where
  "forked f = \<lparr>rows = [elder, younger, follower], nextId = 4, clock = 3, failAfter = f\<rparr>"

text \<open>A table whose only row is linked to itself.\<close>

definition selfLinked :: Store where
  "selfLinked = \<lparr>rows = [\<lparr>id_c = 1, phoneNumber = None, email = Some ''a@x.com'', linkedId = Some 1,
                         linkPrecedence = Secondary, createdAt = 1, updatedAt = 1, deletedAt = None\<rparr>],
                 nextId = 2, clock = 1, failAfter = None\<rparr>"

text \<open>
  The table after the request \<^verbatim>\<open>{email: "a@x.com"}\<close> has been sent twice to the empty
  store: two primaries with the same email.
\<close>

definition twin :: Contact where
  "twin = \<lparr>id_c = 2, phoneNumber = None, email = Some ''a@x.com'', linkedId = None,
            linkPrecedence = Primary, createdAt = 5, updatedAt = 5, deletedAt = None\<rparr>"

definition twins :: Store where
  "twins = \<lparr>rows = [contact1, twin], nextId = 3, clock = 5, failAfter = None\<rparr>"

section \<open>What the handler reads from a row object\<close>

text \<open>
  A row object has the keys \<^verbatim>\<open>id\<close> and \<^verbatim>\<open>email\<close>, and none of the keys
  \<^verbatim>\<open>linkPrecedence\<close>, \<^verbatim>\<open>phoneNumber\<close>, \<^verbatim>\<open>createdAt\<close> that the handler reads.
\<close>

lemma getProp_rowObject:
  "getProp (rowObject c) ''id'' = Some (Num (id_c c))"
  "getProp (rowObject c) ''email'' = Some (strOrNull (email c))"
  "getProp (rowObject c) ''linkPrecedence'' = None"
  "getProp (rowObject c) ''phoneNumber'' = None"
  "getProp (rowObject c) ''createdAt'' = None"
  by (simp_all add: getProp_def rowObject_def)

lemma jsPrimary_rowObject: "\<not> jsPrimary (rowObject c)"
  by (simp add: jsPrimary_def strictEq_def getProp_rowObject)

lemma find_jsPrimary_rows: "find jsPrimary (map rowObject cs) = None"
  by (simp add: find_None_iff jsPrimary_rowObject)

lemma buildResponse_rows: "buildResponse (map rowObject cs) = Inl NoPrimaryContactFound"
  by (simp add: buildResponse_def find_jsPrimary_rows)

section \<open>Statements of the store\<close>

lemma query_keeps:
  "query db = (r, db1) \<Longrightarrow> rows db1 = rows db \<and> nextId db1 = nextId db"
  by (auto simp: query_def split: option.splits nat.splits)

lemma query_error:
  "query db = (Inl e, db1) \<Longrightarrow> e = StoreFailure"
  by (auto simp: query_def split: option.splits nat.splits)

lemma createContact_result:
  assumes "createContact em ph lid lp db = (r, db1)"
  shows "(r = Inl StoreFailure \<and> rows db1 = rows db) \<or>
         (\<exists>c. r = Inr (rowObject c) \<and> rows db1 = rows db @ [c] \<and>
               linkedId c = lid \<and> linkPrecedence c = lp \<and> deletedAt c = None)"
proof (cases "query db")
  case (Pair q dbq)
  note keeps = query_keeps [OF Pair]
  show ?thesis
  proof (cases q)
    case (Inl e)
    with Pair query_error have "e = StoreFailure" by blast
    with assms Pair Inl keeps show ?thesis by (simp add: createContact_def bindE_def)
  next
    case (Inr u)
    with assms Pair keeps show ?thesis
      by (auto simp: createContact_def bindE_def Let_def split: option.splits if_splits)
  qed
qed

text \<open>
  The handler from the chain on, for a chain of row objects: whatever the chain holds, no
  primary is found in it, a primary is inserted, and \<^verbatim>\<open>buildResponse\<close> throws on the
  row object of the new row.
\<close>

lemma consolidate_rows_any:
  "consolidate (map rowObject cs) req db = consolidate [] req db"
  by (simp add: consolidate_def find_jsPrimary_rows)

lemma consolidate_rows:
  assumes "consolidate (map rowObject cs) req db = (out, db1)"
  shows "(out = Inl StoreFailure \<and> rows db1 = rows db) \<or>
         (out = Inl NoPrimaryContactFound \<and>
          (\<exists>c. rows db1 = rows db @ [c] \<and> isPrimary c \<and> linkedId c = None \<and> deletedAt c = None))"
proof -
  obtain q dbq where c: "createContact (req_email req) (req_phoneNumber req) None Primary db = (q, dbq)"
    by (cases "createContact (req_email req) (req_phoneNumber req) None Primary db")
  from createContact_result [OF c] show ?thesis
  proof (elim disjE exE conjE)
    assume "q = Inl StoreFailure" "rows dbq = rows db"
    with assms c show ?thesis
      by (simp add: consolidate_def find_jsPrimary_rows bindE_def)
  next
    fix r assume r: "q = Inr (rowObject r)" "rows dbq = rows db @ [r]" "linkedId r = None"
      "linkPrecedence r = Primary" "deletedAt r = None"
    have "buildResponse [rowObject r] = Inl NoPrimaryContactFound"
      using buildResponse_rows [of "[r]"] by simp
    with assms c r show ?thesis
      by (auto simp: consolidate_def find_jsPrimary_rows bindE_def isPrimary_def)
  qed
qed

lemma getContactChain_result:
  assumes "getContactChain contact db = Some (out, db1)"
  shows "db1 = snd (query db) \<and> rows db1 = rows db \<and>
         (case fst (query db) of
            Inl e \<Rightarrow> out = Inl StoreFailure
          | Inr u \<Rightarrow> (\<exists>cs. out = Inr (map rowObject cs)))"
proof (cases "query db")
  case (Pair q dbq)
  note keeps = query_keeps [OF Pair]
  show ?thesis
  proof (cases q)
    case (Inl e)
    with Pair query_error have "e = StoreFailure" by blast
    with assms Pair Inl keeps show ?thesis by (simp add: getContactChain_def)
  next
    case (Inr u)
    with assms Pair keeps show ?thesis
      by (auto simp: getContactChain_def Let_def split: option.splits)
  qed
qed

text \<open>
  From the matched contacts on: the outcome depends on the matched contacts only through
  whether there is one.
\<close>

lemma identifyOn_nonempty:
  assumes "identifyOn (r # rest) req db = Some out"
  shows "out = (case query db of
                  (Inl e, db1) \<Rightarrow> (Inl StoreFailure, db1)
                | (Inr u, db1) \<Rightarrow> consolidate [] req db1)"
proof -
  from assms obtain q dbq where chain: "getContactChain r db = Some (q, dbq)"
    by (auto simp: identifyOn_def split: option.splits)
  note res = getContactChain_result [OF chain]
  obtain a dba where qu: "query db = (a, dba)" by (cases "query db")
  show ?thesis
  proof (cases a)
    case (Inl e)
    with res qu have "q = Inl StoreFailure" "dbq = dba" by simp_all
    with assms chain qu Inl show ?thesis by (simp add: identifyOn_def)
  next
    case (Inr u)
    with res qu obtain cs where "q = Inr (map rowObject cs)" "dbq = dba" by auto
    with assms chain qu Inr show ?thesis
      by (simp add: identifyOn_def consolidate_rows_any)
  qed
qed

lemma identifyOn_rows:
  assumes "identifyOn related req db = Some (out, db1)"
  shows "(out = Inl StoreFailure \<and> rows db1 = rows db) \<or>
         (out = Inl NoPrimaryContactFound \<and>
          (\<exists>c. rows db1 = rows db @ [c] \<and> isPrimary c \<and> linkedId c = None \<and> deletedAt c = None))"
proof (cases related)
  case Nil
  with assms have "consolidate (map rowObject []) req db = (out, db1)"
    by (simp add: identifyOn_def)
  from consolidate_rows [OF this] show ?thesis .
next
  case (Cons r rest)
  obtain a dba where qu: "query db = (a, dba)" by (cases "query db")
  note keeps = query_keeps [OF qu]
  from assms Cons identifyOn_nonempty [of r rest req db "(out, db1)"] qu
  have out: "(out, db1) = (case a of Inl e \<Rightarrow> (Inl StoreFailure, dba) | Inr u \<Rightarrow> consolidate [] req dba)"
    by (cases a) simp_all
  show ?thesis
  proof (cases a)
    case (Inl e)
    with out keeps show ?thesis by simp
  next
    case (Inr u)
    with out have "consolidate (map rowObject []) req dba = (out, db1)" by simp
    from consolidate_rows [OF this] keeps show ?thesis by simp
  qed
qed

lemma attempt_rows:
  assumes "attempt req db = Some (out, db1)"
  shows "(out = Inl StoreFailure \<and> rows db1 = rows db) \<or>
         (out = Inl NoPrimaryContactFound \<and>
          (\<exists>c. rows db1 = rows db @ [c] \<and> isPrimary c \<and> linkedId c = None \<and> deletedAt c = None))"
proof -
  obtain a dba where qu: "query db = (a, dba)" by (cases "query db")
  note keeps = query_keeps [OF qu]
  show ?thesis
  proof (cases a)
    case (Inl e)
    with qu query_error have "e = StoreFailure" by blast
    with assms qu Inl keeps show ?thesis
      by (simp add: attempt_def getRelatedContacts_def bindE_def)
  next
    case (Inr u)
    with assms qu obtain related where "identifyOn related req dba = Some (out, db1)"
      by (auto simp: attempt_def getRelatedContacts_def bindE_def)
    from identifyOn_rows [OF this] keeps show ?thesis by simp
  qed
qed

text \<open>
  One request: the rows are as they were, or one primary without \<open>linkedId\<close> has been
  added; and the answer is never status 200.
\<close>

lemma identify_rows:
  assumes "identify req db = Some (res, db1)"
  shows "res \<noteq> Status500 \<and> res = Status400 \<and> db1 = db \<or>
         res = Status500 \<and>
         (rows db1 = rows db \<or>
          (\<exists>c. rows db1 = rows db @ [c] \<and> isPrimary c \<and> linkedId c = None \<and> deletedAt c = None))"
proof (cases "\<not> truthy (req_email req) \<and> \<not> truthy (req_phoneNumber req)")
  case True
  with assms show ?thesis by (simp add: identify_def)
next
  case False
  with assms obtain out dbo where a: "attempt req db = Some (out, dbo)"
    and r: "respond (out, dbo) = (res, db1)"
    by (auto simp: identify_def)
  from attempt_rows [OF a] r show ?thesis
    by (auto simp: respond_def)
qed

subsection \<open>The recursive query ends on a table without links\<close>

lemma unlinked_children: "unlinked db \<Longrightarrow> children (rows db) work = []"
  by (auto simp: unlinked_def children_def list_all_iff filter_empty_conv)

lemma unlinked_contact_tree:
  assumes "unlinked db"
  shows "contact_tree (rows db) work acc = Some acc"
proof -
  have stop: "\<And>x. contact_tree (rows db) [] x = Some x"
    by (subst contact_tree.simps) simp
  show ?thesis
    by (subst contact_tree.simps) (simp add: unlinked_children [OF assms] stop)
qed

lemma unlinked_query: "query db = (r, db1) \<Longrightarrow> unlinked db1 = unlinked db"
  by (auto simp: unlinked_def dest: query_keeps)

lemma unlinked_chain_ends:
  assumes "unlinked db"
  shows "\<exists>out. getContactChain contact db = Some out"
proof (cases "query db")
  case (Pair q dbq)
  with assms unlinked_query [OF Pair] have "unlinked dbq" by simp
  from unlinked_contact_tree [OF this] Pair show ?thesis
    by (cases q) (simp_all add: getContactChain_def Let_def)
qed

lemma unlinked_identifyOn_ends:
  assumes "unlinked db"
  shows "\<exists>out. identifyOn related req db = Some out"
  using unlinked_chain_ends [OF assms]
  by (cases related) (auto simp: identifyOn_def split: option.splits sum.splits prod.splits)

lemma unlinked_identify_ends:
  assumes "unlinked db"
  shows "\<exists>res db1. identify req db = Some (res, db1)"
proof -
  obtain q dbq where g: "getRelatedContacts (req_email req) (req_phoneNumber req) db = (q, dbq)"
    by (cases "getRelatedContacts (req_email req) (req_phoneNumber req) db")
  obtain a dba where qu: "query db = (a, dba)" by (cases "query db")
  from g qu have "dbq = dba"
    by (cases a) (auto simp: getRelatedContacts_def bindE_def)
  with assms unlinked_query [OF qu] have "unlinked dbq" by simp
  from unlinked_identifyOn_ends [OF this]
  have "\<exists>out. attempt req db = Some out"
    using g by (cases q) (simp_all add: attempt_def)
  then have "\<exists>res db1. map_option respond (attempt req db) = Some (res, db1)"
    by (metis option.simps(9) surj_pair)
  then show ?thesis by (simp add: identify_def)
qed

text \<open>On links that form a cycle the query does not end, and the handler never answers.\<close>

lemma contact_tree_cycle:
  assumes "work \<noteq> []" "children tbl work = work"
  shows "contact_tree tbl work acc = None"
proof (rule ccontr)
  assume "contact_tree tbl work acc \<noteq> None"
  then obtain tree where t: "contact_tree tbl work acc = Some tree" by auto
  have "\<not> (work \<noteq> [] \<and> children tbl work = work)"
  proof (rule contact_tree.raw_induct
      [where P = "\<lambda>tbl work acc tree. \<not> (work \<noteq> [] \<and> children tbl work = work)", OF _ t])
    fix f :: "Contact list \<Rightarrow> Contact list \<Rightarrow> Contact list \<Rightarrow> Contact list option"
    fix tbl work acc tree
    assume IH: "\<And>tbl work acc y. f tbl work acc = Some y \<Longrightarrow>
        \<not> (work \<noteq> [] \<and> children tbl work = work)"
    assume eq: "(if work = [] then Some acc
                 else f tbl (children tbl work) (acc @ children tbl work)) = Some tree"
    show "\<not> (work \<noteq> [] \<and> children tbl work = work)"
    proof
      assume c: "work \<noteq> [] \<and> children tbl work = work"
      with eq have "f tbl work (acc @ work) = Some tree" by simp
      from IH [OF this] c show False by simp
    qed
  qed
  with assms show False by simp
qed

lemma identify_selfLinked:
  "identify \<lparr>req_email = Some ''a@x.com'', req_phoneNumber = None\<rparr> selfLinked = None"
proof -
  let ?c = "\<lparr>id_c = 1, phoneNumber = None, email = Some ''a@x.com'', linkedId = Some 1,
             linkPrecedence = Secondary, createdAt = 1, updatedAt = 1, deletedAt = None\<rparr>"
  have "children [?c] [?c] = [?c]" by (simp add: children_def)
  then have "contact_tree [?c] [?c] [?c] = None" by (intro contact_tree_cycle) simp_all
  then show ?thesis
    by (simp add: identify_def attempt_def truthy_def getRelatedContacts_def bindE_def query_def
          selfLinked_def matches_def identifyOn_def getContactChain_def getProp_rowObject sqlInt_def)
qed

subsection \<open>Runs\<close>

lemma noOrphanSecondary_append:
  assumes "noOrphanSecondary rs" "isPrimary c"
  shows "noOrphanSecondary (rs @ [c])"
  using assms
  unfolding noOrphanSecondary_def list_all_iff list_ex_iff
  by (fastforce simp: isPrimary_def isSecondary_def split: option.splits)

lemma identify_noOrphanSecondary:
  assumes "noOrphanSecondary (rows db)" "identify req db = Some (res, db1)"
  shows "noOrphanSecondary (rows db1)"
  using identify_rows [OF assms(2)] assms(1)
  by (auto intro: noOrphanSecondary_append)

lemma identify_unlinked:
  assumes "unlinked db" "identify req db = Some (res, db1)"
  shows "unlinked db1"
  using identify_rows [OF assms(2)] assms(1)
  by (auto simp: unlinked_def)

lemma run_ends:
  "unlinked db \<Longrightarrow> noOrphanSecondary (rows db) \<Longrightarrow>
     \<exists>db1. run steps db = Some db1 \<and> unlinked db1 \<and> noOrphanSecondary (rows db1)"
proof (induction steps arbitrary: db)
  case Nil
  then show ?case by simp
next
  case (Cons step steps)
  obtain dt f req where step: "step = (dt, f, req)" by (cases step)
  let ?db = "db\<lparr>clock := clock db + dt, failAfter := f\<rparr>"
  from Cons.prems have u: "unlinked ?db" and n: "noOrphanSecondary (rows ?db)"
    by (simp_all add: unlinked_def)
  from unlinked_identify_ends [OF u] obtain res db1 where
    i: "identify req ?db = Some (res, db1)" by blast
  from Cons.IH [OF identify_unlinked [OF u i] identify_noOrphanSecondary [OF n i]] i step
  show ?case by simp
qed

section \<open>Example runs\<close>

lemma twins_reached:
  "run [observe (Some ''a@x.com'') None, observe (Some ''a@x.com'') None] emptyStore = Some twins"
  by code_simp

text \<open>
  \<^verbatim>\<open>buildResponse\<close> on an object with the keys of \<^verbatim>\<open>interface Contact\<close>, a primary
  with an email and no phone number: the phone number that is not there is listed.
\<close>

lemma buildResponse_typed_contact:
  "buildResponse [[(''id'', Num 1), (''email'', Str ''a@x.com''), (''linkPrecedence'', Str ''primary'')]] =
     Inr \<lparr>primaryContatctId = Some (Num 1), emails = [Some (Str ''a@x.com'')],
          phoneNumbers = [None], secondaryContactIds = []\<rparr>"
  by code_simp

section \<open>Claims\<close>

text \<open>
  C1 (the code differs). The four requests of the specification's scenario 3, sent to the
  empty store. The last one, \<^verbatim>\<open>{email: "a@x.com", phoneNumber: "777"}\<close>, matches contacts
  of both clusters. No primary is read from the chain (a row object has no key
  \<^verbatim>\<open>linkPrecedence\<close>), so a fourth primary is inserted, nothing is demoted or linked, and
  the answer is status 500.
\<close>

theorem bridging_request_inserts_primary:
  "after [observe (Some ''a@x.com'') None, observe (Some ''a@x.com'') (Some ''555''),
          observe None (Some ''777'')]
     \<lparr>req_email = Some ''a@x.com'', req_phoneNumber = Some ''777''\<rparr> =
     Some (Status500,
           [(1, Primary, None), (2, Primary, None), (3, Primary, None), (4, Primary, None)])"
  by code_simp

text \<open>
  C2 (the code differs). After the four requests of the specification's scenario 3 the
  contacts 1, 2, 3 and 4 are one cluster (2 and 4 have the email of 1, 4 has the phone
  number of 3), and all four are primaries.
\<close>

theorem cluster_of_four_primaries:
  "map_option (\<lambda>db. (links db, map id_c (clusterOf (rows db) (hd (rows db))),
                     map id_c (filter isPrimary (clusterOf (rows db) (hd (rows db))))))
     (run [observe (Some ''a@x.com'') None, observe (Some ''a@x.com'') (Some ''555''),
           observe None (Some ''777''), observe (Some ''a@x.com'') (Some ''777'')] emptyStore) =
     Some ([(1, Primary, None), (2, Primary, None), (3, Primary, None), (4, Primary, None)],
           [1, 2, 3, 4], [1, 2, 3, 4])"
  by code_simp

text \<open>
  C3 (the code differs). On the table of primary 1 and its secondary 2 (phone number
  \<^verbatim>\<open>555\<close>), the request \<^verbatim>\<open>{phoneNumber: "555"}\<close> matches the secondary only. The chain of
  the secondary is the secondary alone, no primary is read from it, and a new primary 3 is
  inserted; the answer is status 500, without contact 1.
\<close>

theorem phone_of_secondary_creates_primary:
  "links store12 = [(1, Primary, None), (2, Secondary, Some 1)] \<and>
   map_option fst (getContactChain (rowObject contact2) store12) = Some (Inr [rowObject contact2]) \<and>
   map_option (\<lambda>(res, db). (res, links db))
     (identify \<lparr>req_email = None, req_phoneNumber = Some ''555''\<rparr> store12) =
     Some (Status500, [(1, Primary, None), (2, Secondary, Some 1), (3, Primary, None)])"
  by code_simp

text \<open>
  C4 (the code differs). The request \<^verbatim>\<open>{email: "a@x.com"}\<close> sent twice to the empty store:
  the first application inserts row 1, the second inserts row 2, and both are answered
  with status 500.
\<close>

theorem second_application_inserts_row:
  "after [] \<lparr>req_email = Some ''a@x.com'', req_phoneNumber = None\<rparr> =
     Some (Status500, [(1, Primary, None)]) \<and>
   after [observe (Some ''a@x.com'') None] \<lparr>req_email = Some ''a@x.com'', req_phoneNumber = None\<rparr> =
     Some (Status500, [(1, Primary, None), (2, Primary, None)])"
  by code_simp

text \<open>
  C5 (the code differs). \<^verbatim>\<open>{email: "a@x.com"}\<close> on the empty store, the specification's
  scenario 1: the new row is contact 1, \<^verbatim>\<open>buildResponse\<close> finds no primary in its row
  object and throws, and nothing is rendered.
\<close>

theorem buildResponse_throws_on_new_row:
  "attempt \<lparr>req_email = Some ''a@x.com'', req_phoneNumber = None\<rparr> emptyStore =
     Some (Inl NoPrimaryContactFound, \<lparr>rows = [contact1], nextId = 2, clock = 2, failAfter = None\<rparr>) \<and>
   buildResponse [rowObject contact1] = Inl NoPrimaryContactFound \<and>
   map_option fst (identify \<lparr>req_email = Some ''a@x.com'', req_phoneNumber = None\<rparr> emptyStore) =
     Some Status500"
  by code_simp

text \<open>
  C6 (the code differs). After \<^verbatim>\<open>{email: "a@x.com"}\<close> the table holds contact 1. The
  request \<^verbatim>\<open>{email: "a@x.com", phoneNumber: "555"}\<close> fails with status 500, and the table
  holds a second row.
\<close>

theorem failed_request_leaves_row:
  "map_option links (run [observe (Some ''a@x.com'') None] emptyStore) = Some [(1, Primary, None)] \<and>
   after [observe (Some ''a@x.com'') None] \<lparr>req_email = Some ''a@x.com'', req_phoneNumber = Some ''555''\<rparr> =
     Some (Status500, [(1, Primary, None), (2, Primary, None)])"
  by code_simp




text \<open>
  C8. No request makes an orphan: the empty table has none, and when the table has none
  before a request it has none after it, whatever the request and the answer. So for every
  sequence of requests sent to the empty store, with any pauses and any failures of the
  connection, the run ends, and in the table it leaves every non-deleted secondary has the
  id of a primary as its \<open>linkedId\<close>.
\<close>

theorem no_orphan_secondary:
  "(\<exists>db. run steps emptyStore = Some db \<and> noOrphanSecondary (rows db)) \<and>
   (noOrphanSecondary (rows db0) \<longrightarrow> identify req db0 = Some (res, db1) \<longrightarrow>
      noOrphanSecondary (rows db1))"
proof
  have "unlinked emptyStore" "noOrphanSecondary (rows emptyStore)"
    by (simp_all add: unlinked_def noOrphanSecondary_def emptyStore_def)
  from run_ends [OF this, of steps]
  show "\<exists>db. run steps emptyStore = Some db \<and> noOrphanSecondary (rows db)" by blast
next
  show "noOrphanSecondary (rows db0) \<longrightarrow> identify req db0 = Some (res, db1) \<longrightarrow>
      noOrphanSecondary (rows db1)"
    by (auto intro: identify_noOrphanSecondary)
qed

theorem no_orphan_secondary_witness:
  "rows store12 = [contact1, contact2] \<and>
   deletedAt contact2 = None \<and> isSecondary contact2 \<and> linkedId contact2 = Some (id_c contact1) \<and>
   isPrimary contact1 \<and>
   noOrphanSecondary (rows store12) \<and>
   map_option fst (identify \<lparr>req_email = None, req_phoneNumber = Some ''555''\<rparr> store12) = Some Status500 \<and>
   map_option (noOrphanSecondary \<circ> rows \<circ> snd)
     (identify \<lparr>req_email = None, req_phoneNumber = Some ''555''\<rparr> store12) = Some True"
proof -
  let ?req = "\<lparr>req_email = None, req_phoneNumber = Some ''555''\<rparr>"
  have before: "noOrphanSecondary (rows store12)" by code_simp
  have status: "map_option fst (identify ?req store12) = Some Status500" by code_simp
  then obtain db1 where i: "identify ?req store12 = Some (Status500, db1)" by auto
  from no_orphan_secondary [of "[]" store12 ?req Status500 db1] before i
  have "noOrphanSecondary (rows db1)" by simp
  with before status i show ?thesis
    by (simp add: store12_def contact1_def contact2_def isSecondary_def isPrimary_def)
qed



text \<open>
  C10. \<^verbatim>\<open>updateContactToSecondary\<close> keeps the number of rows and the sequence; every row
  keeps its id, email, phone number, \<open>createdAt\<close> and \<open>deletedAt\<close>; and a row whose id is
  not the given contact id is not changed at all. So only \<open>linkPrecedence\<close>, \<open>linkedId\<close>
  and \<open>updatedAt\<close> of the targeted row can change. This holds whether the statement
  succeeds or fails.
\<close>

theorem updateContactToSecondary_frame:
  assumes "updateContactToSecondary contactId lid db = (res, db')"
  shows "length (rows db') = length (rows db) \<and> nextId db' = nextId db \<and>
         (\<forall>i < length (rows db).
            sameIdentity (rows db ! i) (rows db' ! i) \<and>
            (id_c (rows db ! i) \<noteq> contactId \<longrightarrow> rows db' ! i = rows db ! i))"
  using assms
  by (auto simp: updateContactToSecondary_def bindE_def query_def sameIdentity_def demote_def
           split: option.splits nat.splits if_splits)

theorem updateContactToSecondary_frame_witness:
  "fst (updateContactToSecondary 2 1 (forked None)) = Inr () \<and>
   length (rows (snd (updateContactToSecondary 2 1 (forked None)))) = 3 \<and>
   rows (snd (updateContactToSecondary 2 1 (forked None))) ! 0 = elder \<and>
   rows (snd (updateContactToSecondary 2 1 (forked None))) ! 2 = follower \<and>
   sameIdentity younger (rows (snd (updateContactToSecondary 2 1 (forked None))) ! 1) \<and>
   linkPrecedence (rows (snd (updateContactToSecondary 2 1 (forked None))) ! 1) = Secondary \<and>
   linkedId (rows (snd (updateContactToSecondary 2 1 (forked None))) ! 1) = Some 1"
proof -
  let ?out = "updateContactToSecondary 2 1 (forked None)"
  have run: "?out = (fst ?out, snd ?out)" by simp
  have rows0: "rows (forked None) = [elder, younger, follower]" by (simp add: forked_def)
  have id0: "id_c elder \<noteq> 2" by (simp add: elder_def)
  have id2: "id_c follower \<noteq> 2" by (simp add: follower_def)
  have res: "fst ?out = Inr ()" by code_simp
  have lp: "linkPrecedence (rows (snd ?out) ! 1) = Secondary" by code_simp
  have li: "linkedId (rows (snd ?out) ! 1) = Some 1" by code_simp
  note frame = updateContactToSecondary_frame [OF run]
  have len: "length (rows (snd ?out)) = 3"
    using frame rows0 by simp
  have r0: "rows (snd ?out) ! 0 = elder"
    using frame [THEN conjunct2, THEN conjunct2, rule_format, of 0] rows0 id0 by simp
  have r1: "sameIdentity younger (rows (snd ?out) ! 1)"
    using frame [THEN conjunct2, THEN conjunct2, rule_format, of 1] rows0 by simp
  have r2: "rows (snd ?out) ! 2 = follower"
    using frame [THEN conjunct2, THEN conjunct2, rule_format, of 2] rows0 id2 by simp
  from res len r0 r1 r2 lp li show ?thesis by simp
qed

end
